theory Spec2Isabelle
  imports Complex_Main "HOL-Library.Char_ord" "HOL-Library.List_Lexorder" "HOL-Library.Multiset"
begin

section \<open>The icon sprite generator (assets/generate\_icon\_sprite.py)\<close>

text \<open>
  The program reads a directory of SVG files, drops background shapes, rescales what is
  left to a 24 by 24 frame and concatenates the result into one sprite document.

  Modelling decisions.
  \<^item> Python's \<open>float\<close> is modelled by exact rational numbers: rounding, infinities and
    NaN are not represented.  The tuple returned by \<open>parse_viewbox\<close> holds Python
    \<open>int\<close>s on the fallback path and \<open>float\<close>s otherwise; both compare by value but
    are formatted differently inside an f-string, so the distinction is kept.
  \<^item> The library functions the program calls (\<open>float\<close> on a string, the formatting of
    a float, \<open>ET.fromstring\<close>, \<open>ET.tostring\<close>) are parameters, collected in the
    record \<open>pylib\<close>.
  \<^item> An exception is a value of type \<open>pyerror\<close>; a function that may raise returns
    \<open>pyerror + 'a\<close>.
  \<^item> What the program prints is a list of messages; the text of a message is abstracted
    to a constructor of \<open>msg\<close>.
\<close>

subsection \<open>Data\<close>

datatype pyerror = ValueError | ZeroDivisionError | OSError

datatype pynum = PyInt int | PyFloat rat

fun num_val :: "pynum \<Rightarrow> rat" where
  "num_val (PyInt i) = of_int i"
| "num_val (PyFloat q) = q"

type_synonym viewbox = "pynum \<times> pynum \<times> pynum \<times> pynum"

text \<open>An \<open>xml.etree.ElementTree.Element\<close>: the attribute dictionary keeps insertion order.\<close>

datatype element =
  Element (tag: string) (attrib: "(string \<times> string) list")
          (elem_text: "string option") (elem_tail: "string option")
          (children: "element list")

record pylib =
  to_float :: "string \<Rightarrow> rat option"
  repr_float :: "rat \<Rightarrow> string"
  fromstring :: "string \<Rightarrow> element option"
  tostring :: "element \<Rightarrow> string"

subsection \<open>Strings\<close>

text \<open>The ASCII characters for which \<open>str.isspace\<close> holds.\<close>

definition isspace :: "char \<Rightarrow> bool" where
  "isspace c \<longleftrightarrow> c \<in> set [CHR 0x09, CHR 0x0A, CHR 0x0B, CHR 0x0C, CHR 0x0D,
                            CHR 0x1C, CHR 0x1D, CHR 0x1E, CHR 0x1F, CHR 0x20]"

definition strip :: "string \<Rightarrow> string" where
  "strip s = rev (dropWhile isspace (rev (dropWhile isspace s)))"

text \<open>\<open>s.split()\<close>: the maximal runs of non-space characters.\<close>

fun split_ws_aux :: "string \<Rightarrow> string \<Rightarrow> string list" where
  "split_ws_aux cur [] = (if cur = [] then [] else [rev cur])"
| "split_ws_aux cur (c # cs) =
     (if isspace c then (if cur = [] then split_ws_aux [] cs else rev cur # split_ws_aux [] cs)
      else split_ws_aux (c # cur) cs)"

definition split_ws :: "string \<Rightarrow> string list" where
  "split_ws s = split_ws_aux [] s"

text \<open>\<open>s.split(sep)\<close> for a one-character separator: empty pieces are kept.\<close>

fun split_on_aux :: "char \<Rightarrow> string \<Rightarrow> string \<Rightarrow> string list" where
  "split_on_aux sep cur [] = [rev cur]"
| "split_on_aux sep cur (c # cs) =
     (if c = sep then rev cur # split_on_aux sep [] cs else split_on_aux sep (c # cur) cs)"

definition split_on :: "char \<Rightarrow> string \<Rightarrow> string list" where
  "split_on sep s = split_on_aux sep [] s"

text \<open>\<open>sep.join(xs)\<close>.\<close>

fun join :: "string \<Rightarrow> string list \<Rightarrow> string" where
  "join sep [] = []"
| "join sep [x] = x"
| "join sep (x # y # ys) = x @ sep @ join sep (y # ys)"

definition startswith :: "string \<Rightarrow> string \<Rightarrow> bool" where
  "startswith s p \<longleftrightarrow> take (length p) s = p"

text \<open>The decimal text of a Python \<open>int\<close>.\<close>

fun str_nat :: "nat \<Rightarrow> string" where
  "str_nat n = (if n < 10 then [''0123456789'' ! n]
                else str_nat (n div 10) @ [''0123456789'' ! (n mod 10)])"

declare str_nat.simps [simp del]

definition str_int :: "int \<Rightarrow> string" where
  "str_int i = (if i < 0 then CHR ''-'' # str_nat (nat (- i)) else str_nat (nat i))"

text \<open>\<open>int(x)\<close>: a float is truncated towards zero.\<close>

fun py_int :: "pynum \<Rightarrow> int" where
  "py_int (PyInt i) = i"
| "py_int (PyFloat q) = (if 0 \<le> q then \<lfloor>q\<rfloor> else \<lceil>q\<rceil>)"

text \<open>\<open>f'{x}'\<close> for a number.\<close>

fun fmt_num :: "pylib \<Rightarrow> pynum \<Rightarrow> string" where
  "fmt_num lib (PyInt i) = str_int i"
| "fmt_num lib (PyFloat q) = repr_float lib q"

subsection \<open>parse\_viewbox\<close>

text \<open>\<open>[float(v) for v in ...]\<close>: the first string that is not a number raises.\<close>

fun floats_of :: "pylib \<Rightarrow> string list \<Rightarrow> rat list option" where
  "floats_of lib [] = Some []"
| "floats_of lib (v # vs) =
     (case to_float lib v of None \<Rightarrow> None
      | Some q \<Rightarrow> (case floats_of lib vs of None \<Rightarrow> None | Some qs \<Rightarrow> Some (q # qs)))"

definition default_viewbox :: viewbox where
  "default_viewbox = (PyInt 0, PyInt 0, PyInt 24, PyInt 24)"

definition parse_viewbox :: "pylib \<Rightarrow> string \<Rightarrow> viewbox" where
  "parse_viewbox lib viewbox_str =
     (case floats_of lib (split_ws viewbox_str) of
        Some [a, b, c, d] \<Rightarrow> (PyFloat a, PyFloat b, PyFloat c, PyFloat d)
      | _ \<Rightarrow> default_viewbox)"

subsection \<open>is\_background\_element\<close>

text \<open>\<open>element.tag.split('}')[-1] if '}' in element.tag else element.tag\<close>\<close>

definition local_tag :: "string \<Rightarrow> string" where
  "local_tag t = (if CHR ''}'' \<in> set t then last (split_on CHR ''}'' t) else t)"

text \<open>\<open>element.get(key)\<close> and \<open>element.get(key, default)\<close>.\<close>

definition get_attr :: "element \<Rightarrow> string \<Rightarrow> string option" where
  "get_attr e k = map_of (attrib e) k"

definition get_attr_default :: "element \<Rightarrow> string \<Rightarrow> string \<Rightarrow> string" where
  "get_attr_default e k dflt = (case get_attr e k of None \<Rightarrow> dflt | Some v \<Rightarrow> v)"

definition background_patterns :: "pylib \<Rightarrow> viewbox \<Rightarrow> string list" where
  "background_patterns lib viewbox =
     (case viewbox of (vx, vy, vw, vh) \<Rightarrow>
      [''M'' @ fmt_num lib vx @ '' '' @ fmt_num lib vy @ ''h'' @ fmt_num lib vw @ ''v''
         @ fmt_num lib vh @ ''H'' @ fmt_num lib vx @ ''z'',
       ''M'' @ fmt_num lib vx @ '' '' @ fmt_num lib vy @ ''h'' @ fmt_num lib vw @ ''v''
         @ fmt_num lib vh @ ''H'' @ fmt_num lib vx @ ''V'' @ fmt_num lib vy @ ''z'',
       ''M'' @ fmt_num lib vx @ '','' @ fmt_num lib vy @ ''h'' @ fmt_num lib vw @ ''v''
         @ fmt_num lib vh @ ''H'' @ fmt_num lib vx @ ''V'' @ fmt_num lib vy @ ''z'',
       ''M'' @ fmt_num lib vx @ '' '' @ fmt_num lib vy @ ''h'' @ str_int (py_int vw) @ ''v''
         @ str_int (py_int vh) @ ''H'' @ fmt_num lib vx @ ''z'',
       ''M'' @ fmt_num lib vx @ '' '' @ fmt_num lib vy @ ''h'' @ str_int (py_int vw) @ ''v''
         @ str_int (py_int vh) @ ''H'' @ fmt_num lib vx @ ''V'' @ fmt_num lib vy @ ''z'',
       ''M0 0h24v24H0z'',
       ''M0 0h24v24H0V0z'',
       ''M0,0h24v24H0V0z'',
       ''M.01 0h24v24h-24V0z''])"

text \<open>\<open>float(element.get(key, 0))\<close>: a missing attribute is 0, a bad one raises.\<close>

definition float_attr :: "pylib \<Rightarrow> element \<Rightarrow> string \<Rightarrow> pyerror + rat" where
  "float_attr lib e k =
     (case get_attr e k of None \<Rightarrow> Inr 0
      | Some s \<Rightarrow> (case to_float lib s of None \<Rightarrow> Inl ValueError | Some q \<Rightarrow> Inr q))"

definition rect_check :: "pylib \<Rightarrow> element \<Rightarrow> viewbox \<Rightarrow> pyerror + bool" where
  "rect_check lib e viewbox =
     (case float_attr lib e ''x'' of Inl err \<Rightarrow> Inl err | Inr x \<Rightarrow>
      case float_attr lib e ''y'' of Inl err \<Rightarrow> Inl err | Inr y \<Rightarrow>
      case float_attr lib e ''width'' of Inl err \<Rightarrow> Inl err | Inr width \<Rightarrow>
      case float_attr lib e ''height'' of Inl err \<Rightarrow> Inl err | Inr height \<Rightarrow>
      case viewbox of (vx, vy, vw, vh) \<Rightarrow>
        Inr (x = num_val vx \<and> y = num_val vy \<and> num_val vw \<le> width \<and> num_val vh \<le> height))"

definition is_background_element :: "pylib \<Rightarrow> element \<Rightarrow> viewbox \<Rightarrow> pyerror + bool" where
  "is_background_element lib e viewbox =
     (if get_attr e ''fill'' = Some ''none'' then Inr True
      else if local_tag (tag e) = ''path''
              \<and> strip (get_attr_default e ''d'' '''') \<in> set (background_patterns lib viewbox)
           then Inr True
      else if local_tag (tag e) = ''rect'' then rect_check lib e viewbox
      else Inr False)"

subsection \<open>normalize\_element\_to\_24x24\<close>

text \<open>\<open>element.set(key, value)\<close>: an existing key keeps its place, a new one goes last.\<close>

fun dict_set :: "string \<Rightarrow> string \<Rightarrow> (string \<times> string) list \<Rightarrow> (string \<times> string) list" where
  "dict_set k v [] = [(k, v)]"
| "dict_set k v ((k', v') # kvs) =
     (if k' = k then (k, v) # kvs else (k', v') # dict_set k v kvs)"

definition set_attr :: "element \<Rightarrow> string \<Rightarrow> string \<Rightarrow> element" where
  "set_attr e k v =
     Element (tag e) (dict_set k v (attrib e)) (elem_text e) (elem_tail e) (children e)"

text \<open>
  The four numbers of the normalization, in the order the source computes them:
  \<open>(scale_x, scale_y, translate_x, translate_y)\<close>.  A zero width or height raises.
\<close>

definition norm_coeffs :: "viewbox \<Rightarrow> pyerror + (rat \<times> rat \<times> rat \<times> rat)" where
  "norm_coeffs source_viewbox =
     (case source_viewbox of (vx, vy, vw, vh) \<Rightarrow>
        if num_val vw = 0 then Inl ZeroDivisionError
        else if num_val vh = 0 then Inl ZeroDivisionError
        else let scale_x = 24 / num_val vw;
                 scale_y = 24 / num_val vh;
                 translate_x = - num_val vx * scale_x;
                 translate_y = - num_val vy * scale_y
             in Inr (scale_x, scale_y, translate_x, translate_y))"

text \<open>
  The entries of the list \<open>transforms\<close>.  The source appends the formatted text at once;
  here an entry is kept as a value and formatted by \<open>fmt_tf\<close>.
\<close>

datatype tf = Translate rat rat | Scale rat rat

definition transforms_of :: "rat \<times> rat \<times> rat \<times> rat \<Rightarrow> tf list" where
  "transforms_of cf =
     (case cf of (scale_x, scale_y, translate_x, translate_y) \<Rightarrow>
        (if translate_x \<noteq> 0 \<or> translate_y \<noteq> 0 then [Translate translate_x translate_y] else [])
        @ (if scale_x \<noteq> 1 \<or> scale_y \<noteq> 1 then [Scale scale_x scale_y] else []))"

fun fmt_tf :: "pylib \<Rightarrow> tf \<Rightarrow> string" where
  "fmt_tf lib (Translate a b) =
     ''translate('' @ repr_float lib a @ '','' @ repr_float lib b @ '')''"
| "fmt_tf lib (Scale a b) =
     ''scale('' @ repr_float lib a @ '','' @ repr_float lib b @ '')''"

definition is_default_viewbox :: "viewbox \<Rightarrow> bool" where
  "is_default_viewbox source_viewbox =
     (case source_viewbox of (vx, vy, vw, vh) \<Rightarrow>
        num_val vx = 0 \<and> num_val vy = 0 \<and> num_val vw = 24 \<and> num_val vh = 24)"

definition normalize_element_to_24x24 :: "pylib \<Rightarrow> element \<Rightarrow> viewbox \<Rightarrow> pyerror + element" where
  "normalize_element_to_24x24 lib e source_viewbox =
     (if is_default_viewbox source_viewbox then Inr (set_attr e ''fill'' ''currentColor'')
      else case norm_coeffs source_viewbox of Inl err \<Rightarrow> Inl err
      | Inr cf \<Rightarrow>
          let transforms = map (fmt_tf lib) (transforms_of cf);
              e' = (if transforms \<noteq> [] then
                      let existing_transform = get_attr_default e ''transform'' [];
                          new_transform = join '' '' transforms
                      in if existing_transform \<noteq> []
                         then set_attr e ''transform'' (existing_transform @ '' '' @ new_transform)
                         else set_attr e ''transform'' new_transform
                    else e)
          in Inr (set_attr e' ''fill'' ''currentColor''))"

subsection \<open>extract\_icon\_elements\<close>

definition drawable_tags :: "string set" where
  "drawable_tags =
     {''path'', ''rect'', ''circle'', ''ellipse'', ''line'', ''polyline'', ''polygon''}"

text \<open>
  The nested function \<open>collect_elements\<close> appends to the list \<open>drawable_elements\<close> of
  the enclosing function; the list is threaded through as \<open>acc\<close>.  \<open>collect_loop\<close> is
  the body of \<open>for element in parent\<close>.
\<close>

fun collect_loop :: "pylib \<Rightarrow> viewbox \<Rightarrow> element list \<Rightarrow> element list \<Rightarrow> pyerror + element list" where
  "collect_loop lib viewbox [] acc = Inr acc"
| "collect_loop lib viewbox (Element t a x1 x2 cs # es) acc =
     (if local_tag t \<in> drawable_tags then
        (case is_background_element lib (Element t a x1 x2 cs) viewbox of
           Inl err \<Rightarrow> Inl err
         | Inr True \<Rightarrow> collect_loop lib viewbox es acc
         | Inr False \<Rightarrow>
             (case normalize_element_to_24x24 lib (Element t a x1 x2 cs) viewbox of
                Inl err \<Rightarrow> Inl err
              | Inr normalized \<Rightarrow> collect_loop lib viewbox es (acc @ [normalized])))
      else
        (case collect_loop lib viewbox cs acc of
           Inl err \<Rightarrow> Inl err
         | Inr acc' \<Rightarrow> collect_loop lib viewbox es acc'))"

definition collect_elements :: "pylib \<Rightarrow> viewbox \<Rightarrow> element \<Rightarrow> element list \<Rightarrow> pyerror + element list" where
  "collect_elements lib viewbox parent acc = collect_loop lib viewbox (children parent) acc"

datatype msg =
    IconsDirNotFound
  | NoSvgFilesFound
  | ProcessingFiles nat
  | XmlParseErrorMsg
  | UnexpectedErrorMsg pyerror
  | IconDone string
  | SkippedIcon string
  | ErrorProcessing string pyerror
  | Success nat nat
  | ErrorWritingOutput

text \<open>The result is what was printed and the list returned.\<close>

definition extract_icon_elements :: "pylib \<Rightarrow> string \<Rightarrow> msg list \<times> element list" where
  "extract_icon_elements lib svg_content =
     (case fromstring lib svg_content of
        None \<Rightarrow> ([XmlParseErrorMsg], [])
      | Some root_el \<Rightarrow>
          let viewbox_str = get_attr_default root_el ''viewBox'' ''0 0 24 24'';
              viewbox = parse_viewbox lib viewbox_str
          in case collect_elements lib viewbox root_el [] of
               Inl err \<Rightarrow> ([UnexpectedErrorMsg err], [])
             | Inr drawable_elements \<Rightarrow> ([], drawable_elements))"

subsection \<open>optimize\_sprite\_content\<close>

fun optimize_lines :: "string list \<Rightarrow> string list" where
  "optimize_lines [] = []"
| "optimize_lines (line # lines) =
     (let stripped = strip line in
      if stripped \<noteq> [] then
        (if startswith stripped ''<symbol'' then ''  '' @ stripped
         else if startswith stripped ''<path'' then ''    '' @ stripped
         else if startswith stripped ''</symbol>'' then ''  '' @ stripped
         else stripped) # optimize_lines lines
      else optimize_lines lines)"

definition newline :: string where
  "newline = [CHR 0x0A]"

definition optimize_sprite_content :: "string \<Rightarrow> string" where
  "optimize_sprite_content content =
     join newline (optimize_lines (split_on (CHR 0x0A) content))"

subsection \<open>generate\_sprite\<close>

text \<open>
  The file system as the program meets it: the entries of the icons directory in the order
  the operating system lists them (\<open>None\<close> when the directory is missing), each with the
  result of reading it, and whether the output directory can be made and the output file
  written.
\<close>

datatype file_read = ReadFails | Content string

record world =
  icons_dir :: "(string \<times> file_read) list option"
  mkdir_ok :: bool
  write_ok :: bool

record loop_state =
  sprite_content :: "string list"
  processed_count :: nat
  out :: "msg list"

record run =
  stdout :: "msg list"
  output_file :: "string option"

definition endswith :: "string \<Rightarrow> string \<Rightarrow> bool" where
  "endswith s p \<longleftrightarrow> length p \<le> length s \<and> drop (length s - length p) s = p"

text \<open>\<open>icons_dir.glob('*.svg')\<close>\<close>

definition glob_svg :: "(string \<times> file_read) list \<Rightarrow> (string \<times> file_read) list" where
  "glob_svg entries = filter (\<lambda>(name, rd). endswith name ''.svg'') entries"

text \<open>
  \<open>Path.stem\<close>: the name without its last suffix; a name whose only dot is the first
  or the last character has no suffix.
\<close>

definition stem :: "string \<Rightarrow> string" where
  "stem name =
     (let ext = takeWhile (\<lambda>c. c \<noteq> CHR ''.'') (rev name) in
      if CHR ''.'' \<in> set name \<and> ext \<noteq> [] \<and> Suc (length ext) < length name
      then take (length name - Suc (length ext)) name else name)"

definition sprite_header :: string where
  \<open>sprite_header = ''<svg xmlns="http://www.w3.org/2000/svg" style="display: none;">''\<close>

definition symbol_open :: "string \<Rightarrow> string" where
  \<open>symbol_open icon_name = ''  <symbol id="'' @ icon_name @ ''" viewBox="0 0 24 24">''\<close>

definition symbol_close :: string where
  "symbol_close = ''  </symbol>''"

definition sprite_footer :: string where
  "sprite_footer = ''</svg>''"

text \<open>The body of \<open>for svg_file in sorted(svg_files)\<close>.\<close>

definition process_file :: "pylib \<Rightarrow> string \<Rightarrow> file_read \<Rightarrow> loop_state \<Rightarrow> loop_state" where
  "process_file lib name rd st =
     (let icon_name = stem name in
      case rd of
        ReadFails \<Rightarrow> st\<lparr>out := out st @ [ErrorProcessing icon_name OSError]\<rparr>
      | Content content \<Rightarrow>
          (case extract_icon_elements lib content of (msgs, elements) \<Rightarrow>
             if elements \<noteq> [] then
               st\<lparr>sprite_content :=
                    sprite_content st @ [symbol_open icon_name]
                      @ map (\<lambda>element. ''    '' @ tostring lib element) elements
                      @ [symbol_close],
                  processed_count := processed_count st + 1,
                  out := out st @ msgs @ [IconDone icon_name]\<rparr>
             else st\<lparr>out := out st @ msgs @ [SkippedIcon icon_name]\<rparr>))"

fun process_files :: "pylib \<Rightarrow> (string \<times> file_read) list \<Rightarrow> loop_state \<Rightarrow> loop_state" where
  "process_files lib [] st = st"
| "process_files lib ((name, rd) # rest) st = process_files lib rest (process_file lib name rd st)"

definition generate_sprite :: "pylib \<Rightarrow> world \<Rightarrow> pyerror + run" where
  "generate_sprite lib w =
     (case icons_dir w of
        None \<Rightarrow> Inr \<lparr>stdout = [IconsDirNotFound], output_file = None\<rparr>
      | Some entries \<Rightarrow>
          let svg_files = glob_svg entries in
          if svg_files = [] then Inr \<lparr>stdout = [NoSvgFilesFound], output_file = None\<rparr>
          else if \<not> mkdir_ok w then Inl OSError
          else
            let st = process_files lib (sort_key fst svg_files)
                       \<lparr>sprite_content = [sprite_header], processed_count = 0,
                        out = [ProcessingFiles (length svg_files)]\<rparr>;
                optimized_content =
                  optimize_sprite_content (join newline (sprite_content st @ [sprite_footer]))
            in if write_ok w
               then Inr \<lparr>stdout = out st @ [Success (processed_count st) (length optimized_content)],
                         output_file = Some optimized_content\<rparr>
               else Inr \<lparr>stdout = out st @ [ErrorWritingOutput], output_file = None\<rparr>)"

section \<open>Notions of the specification\<close>

subsection \<open>What a transform list does to a point\<close>



subsection \<open>The rules of the background classifier\<close>






subsection \<open>The drawable elements the traversal meets\<close>









subsection \<open>Files that fail\<close>



subsection \<open>Removing what lies below drawable elements\<close>



section \<open>A sample library and sample documents\<close>

text \<open>
  Concrete stand-ins for the library functions, used to evaluate the program on examples:
  \<open>sample_float\<close> reads unsigned decimal integers, \<open>sample_repr\<close> prints a number
  with one decimal digit (as Python prints 48.0, 0.5 or -12.0), \<open>sample_tostring\<close>
  prints an element as an empty tag, and \<open>sample_fromstring\<close> knows the documents of
  \<open>sample_docs\<close>.
\<close>

definition sample_float :: "string \<Rightarrow> rat option" where
  "sample_float s =
     (if s \<noteq> [] \<and> list_all (\<lambda>c. c \<in> set ''0123456789'') s
      then Some (of_nat (foldl (\<lambda>n c. 10 * n + (of_char c - 48)) 0 s)) else None)"

definition sample_repr :: "rat \<Rightarrow> string" where
  "sample_repr q =
     (let n = nat \<lfloor>\<bar>q\<bar> * 10\<rfloor> in
      (if q < 0 then ''-'' else []) @ str_nat (n div 10) @ ''.'' @ str_nat (n mod 10))"

definition sample_tostring :: "element \<Rightarrow> string" where
  \<open>sample_tostring e =
     ''<'' @ local_tag (tag e)
       @ concat (map (\<lambda>(k, v). '' '' @ k @ ''="'' @ v @ ''"'') (attrib e)) @ '' />''\<close>

definition leaf :: "string \<Rightarrow> (string \<times> string) list \<Rightarrow> element" where
  "leaf t a = Element t a None None []"

definition home_rect :: element where
  "home_rect = leaf ''rect'' [(''width'', ''48''), (''height'', ''48'')]"

definition home_path :: element where
  "home_path = leaf ''path'' [(''d'', ''M10 10h28v28z'')]"

definition home_doc :: element where
  "home_doc = Element ''svg'' [(''viewBox'', ''0 0 48 48'')] None None [home_rect, home_path]"

definition menu_bg :: element where
  "menu_bg = leaf ''path'' [(''d'', ''M0 0h24v24H0z''), (''fill'', ''none'')]"

definition menu_path :: element where
  "menu_path = leaf ''path'' [(''d'', ''M3 18h18v-2H3z'')]"

definition menu_group :: element where
  "menu_group = Element ''g'' [] None None [menu_path]"

definition menu_doc :: element where
  "menu_doc = Element ''svg'' [(''viewBox'', ''0 0 24 24'')] None None [menu_bg, menu_group]"

definition blank_doc :: element where
  "blank_doc =
     Element ''svg'' [(''viewBox'', ''0 0 24 24'')] None None
       [leaf ''path'' [(''d'', ''M0 0h24v24H0z'')]]"

definition zero_doc :: element where
  "zero_doc = Element ''svg'' [(''viewBox'', ''0 0 0 0'')] None None [menu_path]"

definition bad_rect :: element where
  "bad_rect = leaf ''rect'' [(''x'', ''abc''), (''width'', ''4''), (''height'', ''4'')]"

definition badrect_doc :: element where
  "badrect_doc = Element ''svg'' [(''viewBox'', ''0 0 24 24'')] None None [menu_path, bad_rect]"

definition nested_path :: element where
  "nested_path = Element ''path'' [(''d'', ''M3 18h18v-2H3z'')] None None [bad_rect]"

definition nested_doc :: element where
  "nested_doc = Element ''svg'' [(''viewBox'', ''0 0 24 24'')] None None [nested_path]"


definition home_svg :: string where
  \<open>home_svg =
     ''<svg viewBox="0 0 48 48"><rect width="48" height="48"/><path d="M10 10h28v28z"/></svg>''\<close>

definition menu_svg :: string where
  \<open>menu_svg =
     ''<svg viewBox="0 0 24 24"><path d="M0 0h24v24H0z" fill="none"/><g><path d="M3 18h18v-2H3z"/></g></svg>''\<close>

definition blank_svg :: string where
  \<open>blank_svg = ''<svg viewBox="0 0 24 24"><path d="M0 0h24v24H0z"/></svg>''\<close>

definition zero_svg :: string where
  \<open>zero_svg = ''<svg viewBox="0 0 0 0"><path d="M3 18h18v-2H3z"/></svg>''\<close>

definition badrect_svg :: string where
  \<open>badrect_svg =
     ''<svg viewBox="0 0 24 24"><path d="M3 18h18v-2H3z"/><rect x="abc" width="4" height="4"/></svg>''\<close>

definition nested_svg :: string where
  \<open>nested_svg =
     ''<svg viewBox="0 0 24 24"><path d="M3 18h18v-2H3z"><rect x="abc" width="4" height="4"/></path></svg>''\<close>

definition vb48 :: viewbox where
  "vb48 = (PyFloat 0, PyFloat 0, PyFloat 48, PyFloat 48)"

definition vb24 :: viewbox where
  "vb24 = (PyFloat 0, PyFloat 0, PyFloat 24, PyFloat 24)"

definition vb0 :: viewbox where
  "vb0 = (PyFloat 0, PyFloat 0, PyFloat 0, PyFloat 0)"

definition sample_docs :: "(string \<times> element) list" where
  "sample_docs =
     [(home_svg, home_doc), (menu_svg, menu_doc), (blank_svg, blank_doc),
      (zero_svg, zero_doc), (badrect_svg, badrect_doc), (nested_svg, nested_doc)]"

definition sample_lib :: pylib where
  "sample_lib =
     \<lparr>to_float = sample_float, repr_float = sample_repr,
      fromstring = map_of sample_docs, tostring = sample_tostring\<rparr>"

subsection \<open>The loop, file by file\<close>



definition sample_listing :: "(string \<times> file_read) list" where
  "sample_listing =
     [(''menu.svg'', Content menu_svg), (''notes.txt'', Content ''hello''),
      (''home.svg'', Content home_svg), (''zero.svg'', Content zero_svg)]"


section \<open>Properties\<close>














text \<open>
  Claim C7.  When the icons directory is missing, or holds no \<open>*.svg\<close> file, the run
  prints the one error message and ends with no output written.
\<close>

theorem setup_errors_abort_run:
  "(icons_dir w = None \<longrightarrow>
      generate_sprite lib w = Inr \<lparr>stdout = [IconsDirNotFound], output_file = None\<rparr>)
   \<and> (\<forall>entries. icons_dir w = Some entries \<and> glob_svg entries = [] \<longrightarrow>
      generate_sprite lib w = Inr \<lparr>stdout = [NoSvgFilesFound], output_file = None\<rparr>)"
  by (simp add: generate_sprite_def)

lemma filter_key_distinct:
  "distinct (map f zs) \<Longrightarrow> k \<in> set zs \<Longrightarrow> filter (\<lambda>x. f k = f x) zs = [k]"
proof (induction zs)
  case Nil
  then show ?case by simp
next
  case (Cons z zs)
  show ?case
  proof (cases "k = z")
    case True
    from Cons.prems(1) have "\<forall>x \<in> set zs. f z \<noteq> f x" by auto
    then have "filter (\<lambda>x. f z = f x) zs = []" by (simp add: filter_empty_conv)
    with True show ?thesis by simp
  next
    case False
    with Cons.prems have k: "k \<in> set zs" and d: "distinct (map f zs)" by auto
    from Cons.prems(1) have "f z \<notin> f ` set zs" by simp
    with k have "f k \<noteq> f z" by (metis imageI)
    with Cons.IH[OF d k] show ?thesis by simp
  qed
qed

lemma sort_key_listing:
  assumes "mset xs = mset ys" and "distinct (map f xs)"
  shows "sort_key f xs = sort_key f ys"
proof (rule properties_for_sort_key)
  show "mset (sort_key f ys) = mset xs" using assms(1) by simp
  show "sorted (map f (sort_key f ys))" by simp
  fix k assume k: "k \<in> set (sort_key f ys)"
  have "mset (map f (sort_key f ys)) = mset (map f xs)"
    using assms(1) by simp
  with assms(2) have d: "distinct (map f (sort_key f ys))"
    by (metis mset_eq_imp_distinct_iff)
  from k assms(1) have kx: "k \<in> set xs" by (metis mset_eq_setD set_sort)
  show "filter (\<lambda>x. f k = f x) (sort_key f ys) = filter (\<lambda>x. f k = f x) xs"
    by (simp only: filter_key_distinct[OF d k] filter_key_distinct[OF assms(2) kx])
qed

text \<open>
  Claim C8.  The result of a run (what is printed and what is written) does not depend on
  the order in which the operating system lists the directory: two listings of the same
  files, with distinct names, give the same result.
\<close>

theorem output_independent_of_listing_order:
  assumes "mset listing1 = mset listing2" and "distinct (map fst listing1)"
  shows "generate_sprite lib \<lparr>icons_dir = Some listing1, mkdir_ok = m, write_ok = wr\<rparr>
       = generate_sprite lib \<lparr>icons_dir = Some listing2, mkdir_ok = m, write_ok = wr\<rparr>"
proof -
  have g: "mset (glob_svg listing1) = mset (glob_svg listing2)"
    using assms(1) by (simp add: glob_svg_def)
  have "distinct (map fst (glob_svg listing1))"
    using assms(2) by (simp add: glob_svg_def distinct_map_filter)
  with g have s: "sort_key fst (glob_svg listing1) = sort_key fst (glob_svg listing2)"
    by (rule sort_key_listing)
  from g have l: "length (glob_svg listing1) = length (glob_svg listing2)"
    by (rule mset_eq_length)
  from g have e: "glob_svg listing1 = [] \<longleftrightarrow> glob_svg listing2 = []"
    by (metis mset_zero_iff)
  show ?thesis
    by (simp add: generate_sprite_def Let_def s l e)
qed

lemma map_of_dict_set:
  "map_of (dict_set k v kvs) k' = (if k' = k then Some v else map_of kvs k')"
  by (induction kvs) auto

lemma get_attr_set_attr:
  "get_attr (set_attr e k v) k' = (if k' = k then Some v else get_attr e k')"
  by (simp add: get_attr_def set_attr_def map_of_dict_set)

lemma set_attr_sel:
  "tag (set_attr e k v) = tag e"
  "elem_text (set_attr e k v) = elem_text e"
  "elem_tail (set_attr e k v) = elem_tail e"
  "children (set_attr e k v) = children e"
  by (simp_all add: set_attr_def)

lemma dict_set_others:
  "filter (\<lambda>kv. fst kv \<noteq> k) (dict_set k v kvs) = filter (\<lambda>kv. fst kv \<noteq> k) kvs"
  by (induction kvs) auto

lemma dict_set_keys:
  "map fst (dict_set k v kvs) = (if k \<in> fst ` set kvs then map fst kvs else map fst kvs @ [k])"
  by (induction kvs) force+







text \<open>
  Claim C5.  When the viewBox is \<open>(0, 0, 24, 24)\<close>, normalization returns the element
  with \<open>fill\<close> set to \<open>currentColor\<close> and nothing else changed: tag, text, tail and
  children are the same, the transform attribute is as it was (absent when it was absent),
  every attribute other than \<open>fill\<close> keeps its value and place, and \<open>fill\<close> keeps
  its place when present and goes last otherwise.
\<close>

theorem default_viewbox_only_sets_fill:
  assumes "is_default_viewbox vb"
  shows "\<exists>e'. normalize_element_to_24x24 lib e vb = Inr e'
         \<and> tag e' = tag e \<and> elem_text e' = elem_text e \<and> elem_tail e' = elem_tail e
         \<and> children e' = children e
         \<and> get_attr e' ''fill'' = Some ''currentColor''
         \<and> get_attr e' ''transform'' = get_attr e ''transform''
         \<and> filter (\<lambda>kv. fst kv \<noteq> ''fill'') (attrib e') = filter (\<lambda>kv. fst kv \<noteq> ''fill'') (attrib e)
         \<and> map fst (attrib e') =
             (if ''fill'' \<in> fst ` set (attrib e) then map fst (attrib e)
              else map fst (attrib e) @ [''fill''])"
proof -
  have "normalize_element_to_24x24 lib e vb = Inr (set_attr e ''fill'' ''currentColor'')"
    using assms by (simp add: normalize_element_to_24x24_def)
  moreover have "attrib (set_attr e ''fill'' ''currentColor'') = dict_set ''fill'' ''currentColor'' (attrib e)"
    by (simp add: set_attr_def)
  ultimately show ?thesis
    by (simp add: set_attr_sel get_attr_set_attr dict_set_others dict_set_keys)
qed

















lemma vb_flags:
  "\<not> is_default_viewbox vb48" "is_default_viewbox vb24" "is_default_viewbox default_viewbox"
  "\<not> is_default_viewbox vb0"
  by (simp_all add: is_default_viewbox_def vb48_def vb24_def vb0_def default_viewbox_def)
















lemma sample_glob:
  "glob_svg sample_listing
     = [(''menu.svg'', Content menu_svg), (''home.svg'', Content home_svg),
        (''zero.svg'', Content zero_svg)]"
  "glob_svg [(''notes.txt'', Content ''hello'')] = []"
  by (simp_all add: sample_listing_def glob_svg_def endswith_def)







text \<open>The theorem at the viewBox \<open>0 0 24 24\<close> and a path that has no transform.\<close>

theorem default_viewbox_only_sets_fill_witness:
  "is_default_viewbox vb24
   \<and> (\<exists>e'. normalize_element_to_24x24 sample_lib menu_path vb24 = Inr e'
         \<and> tag e' = tag menu_path \<and> elem_text e' = elem_text menu_path
         \<and> elem_tail e' = elem_tail menu_path \<and> children e' = children menu_path
         \<and> get_attr e' ''fill'' = Some ''currentColor''
         \<and> get_attr e' ''transform'' = get_attr menu_path ''transform''
         \<and> filter (\<lambda>kv. fst kv \<noteq> ''fill'') (attrib e')
             = filter (\<lambda>kv. fst kv \<noteq> ''fill'') (attrib menu_path)
         \<and> map fst (attrib e') =
             (if ''fill'' \<in> fst ` set (attrib menu_path) then map fst (attrib menu_path)
              else map fst (attrib menu_path) @ [''fill'']))
   \<and> get_attr menu_path ''transform'' = None"
proof -
  have h: "is_default_viewbox vb24" by (rule vb_flags)
  have "get_attr menu_path ''transform'' = None"
    by (simp add: get_attr_def menu_path_def leaf_def)
  with default_viewbox_only_sets_fill[OF h, of sample_lib menu_path] h show ?thesis by blast
qed


text \<open>The theorem at a missing directory and at a directory that holds only a text file.\<close>

theorem setup_errors_abort_run_witness:
  "generate_sprite sample_lib \<lparr>icons_dir = None, mkdir_ok = True, write_ok = True\<rparr>
     = Inr \<lparr>stdout = [IconsDirNotFound], output_file = None\<rparr>
   \<and> glob_svg [(''notes.txt'', Content ''hello'')] = []
   \<and> generate_sprite sample_lib
        \<lparr>icons_dir = Some [(''notes.txt'', Content ''hello'')], mkdir_ok = True, write_ok = True\<rparr>
     = Inr \<lparr>stdout = [NoSvgFilesFound], output_file = None\<rparr>"
  using setup_errors_abort_run[of "\<lparr>icons_dir = None, mkdir_ok = True, write_ok = True\<rparr>" sample_lib]
    setup_errors_abort_run[of "\<lparr>icons_dir = Some [(''notes.txt'', Content ''hello'')], mkdir_ok = True, write_ok = True\<rparr>"
       sample_lib]
  by (simp add: sample_glob)

text \<open>The theorem at two listings of the same two files.\<close>

theorem output_independent_of_listing_order_witness:
  "mset [(''menu.svg'', Content menu_svg), (''home.svg'', Content home_svg)]
     = mset [(''home.svg'', Content home_svg), (''menu.svg'', Content menu_svg)]
   \<and> distinct (map fst [(''menu.svg'', Content menu_svg), (''home.svg'', Content home_svg)])
   \<and> generate_sprite sample_lib
        \<lparr>icons_dir = Some [(''menu.svg'', Content menu_svg), (''home.svg'', Content home_svg)],
         mkdir_ok = True, write_ok = True\<rparr>
     = generate_sprite sample_lib
        \<lparr>icons_dir = Some [(''home.svg'', Content home_svg), (''menu.svg'', Content menu_svg)],
         mkdir_ok = True, write_ok = True\<rparr>"
proof -
  have h1: "mset [(''menu.svg'', Content menu_svg), (''home.svg'', Content home_svg)]
     = mset [(''home.svg'', Content home_svg), (''menu.svg'', Content menu_svg)]"
    by (simp add: add_mset_commute)
  have h2: "distinct (map fst [(''menu.svg'', Content menu_svg), (''home.svg'', Content home_svg)])"
    by simp
  from output_independent_of_listing_order[OF h1 h2, of sample_lib True True] h1 h2 show ?thesis by blast
qed




end
